theory Spec2Isabelle
  imports Complex_Main "HOL-Library.Log_Nat"
begin

section \<open>Values, errors and strings\<close>

text \<open>
  The pipeline of \<^verbatim>\<open>etl.py\<close> is a sequence of dataframe operations and two Python
  lambdas. Exceptions are values of \<open>py_error\<close>; a computation that may raise returns
  \<open>py_error + 'a\<close> with \<open>Inl\<close> for the exception.
\<close>

datatype py_error =
    KeyError string
  | AttributeError string
  | AnalysisException string
  | TypeError
  | ValueError
  | OverflowError
  | ZeroDivisionError

text \<open>
  A cell of a dataframe holds a scalar read from JSON (null, boolean, long, double,
  string). Python integers are unbounded (\<open>int\<close>); a double is represented by the
  rational number it denotes. \<open>Failed e\<close> is the cell of a Python UDF column whose
  lambda raises \<open>e\<close> on that row: dataframes are lazy, so the exception surfaces only
  when an action (a write) forces the cell.
\<close>

datatype val = Null | BoolV bool | IntV int | DblV rat | StrV string | Failed py_error

definition bind_err :: "'e + 'a \<Rightarrow> ('a \<Rightarrow> 'e + 'b) \<Rightarrow> 'e + 'b" where
  "bind_err m f = (case m of Inl e \<Rightarrow> Inl e | Inr x \<Rightarrow> f x)"

definition lower_char :: "char \<Rightarrow> char" where
  "lower_char c =
     (let n = (of_char c :: int) in if 65 \<le> n \<and> n \<le> 90 then char_of (n + 32) else c)"

definition lower :: "string \<Rightarrow> string" where
  "lower s = map lower_char s"

definition digit_char :: "int \<Rightarrow> char" where
  "digit_char d = char_of (48 + d)"

function str_digits :: "int \<Rightarrow> string" where
  "str_digits n =
     (if n < 10 then [digit_char n] else str_digits (n div 10) @ [digit_char (n mod 10)])"
  by pat_completeness auto
termination
  by (relation "measure nat") auto

declare str_digits.simps [simp del]

text \<open>Python's \<^verbatim>\<open>str\<close> on an integer.\<close>

definition str_int :: "int \<Rightarrow> string" where
  "str_int i = (if i < 0 then CHR ''-'' # str_digits (- i) else str_digits i)"

text \<open>Zero padding to a width, as the \<^verbatim>\<open>%0Nd\<close> formats of \<^verbatim>\<open>datetime.__str__\<close>.\<close>

definition zero_pad :: "nat \<Rightarrow> int \<Rightarrow> string" where
  "zero_pad w i = (let s = str_int i in replicate (w - length s) CHR ''0'' @ s)"

subsection \<open>Python's \<^verbatim>\<open>int(...)\<close>\<close>

definition is_space :: "char \<Rightarrow> bool" where
  "is_space c = (let n = (of_char c :: int) in (9 \<le> n \<and> n \<le> 13) \<or> (28 \<le> n \<and> n \<le> 32))"

definition is_digit :: "char \<Rightarrow> bool" where
  "is_digit c = (let n = (of_char c :: int) in 48 \<le> n \<and> n \<le> 57)"

definition strip :: "string \<Rightarrow> string" where
  "strip s = rev (dropWhile is_space (rev (dropWhile is_space s)))"

text \<open>
  Decimal digits, where single underscores may separate digits. The flag says whether
  the previous character was a digit (an underscore is allowed only then, and the
  literal may not end with one).
\<close>

fun digits_value :: "bool \<Rightarrow> int \<Rightarrow> string \<Rightarrow> int option" where
  "digits_value prev acc [] = (if prev then Some acc else None)"
| "digits_value prev acc (c # cs) =
     (if is_digit c then digits_value True (10 * acc + (of_char c - 48)) cs
      else if c = CHR ''_'' \<and> prev then
        (case cs of [] \<Rightarrow> None
         | d # _ \<Rightarrow> if is_digit d then digits_value False acc cs else None)
      else None)"

definition int_of_str :: "string \<Rightarrow> py_error + int" where
  "int_of_str s =
     (case strip s of
        [] \<Rightarrow> Inl ValueError
      | c # cs \<Rightarrow>
          if c = CHR ''-'' then
            (case digits_value False 0 cs of None \<Rightarrow> Inl ValueError | Some n \<Rightarrow> Inr (- n))
          else if c = CHR ''+'' then
            (case digits_value False 0 cs of None \<Rightarrow> Inl ValueError | Some n \<Rightarrow> Inr n)
          else
            (case digits_value False 0 (c # cs) of None \<Rightarrow> Inl ValueError | Some n \<Rightarrow> Inr n))"

text \<open>Truncation towards zero: \<^verbatim>\<open>int(x)\<close> on a float.\<close>

definition py_int_of_float :: "rat \<Rightarrow> int" where
  "py_int_of_float x = (if 0 \<le> x then \<lfloor>x\<rfloor> else \<lceil>x\<rceil>)"

definition py_int :: "val \<Rightarrow> py_error + int" where
  "py_int v =
     (case v of
        Null \<Rightarrow> Inl TypeError
      | BoolV b \<Rightarrow> Inr (if b then 1 else 0)
      | IntV n \<Rightarrow> Inr n
      | DblV x \<Rightarrow> Inr (py_int_of_float x)
      | StrV s \<Rightarrow> int_of_str s
      | Failed e \<Rightarrow> Inl e)"

section \<open>Binary64 arithmetic\<close>

text \<open>
  \<^verbatim>\<open>int(x)/1000\<close> and \<^verbatim>\<open>int(x) / 1000.0\<close> are true divisions: the result is the
  IEEE 754 binary64 number nearest to the exact quotient, ties to even. A finite double
  is modelled by its value in \<open>rat\<close>. \<open>binade x\<close> is the exponent \<open>e\<close> with
  \<open>2^e \<le> x < 2^(e+1)\<close>; a double has 53 significant bits, so the spacing of the doubles
  around \<open>x\<close> is \<open>2^(e - 52)\<close>, and never less than \<open>2^(-1074)\<close> (subnormal numbers).
\<close>

definition pow2 :: "int \<Rightarrow> rat" where
  "pow2 k = (if 0 \<le> k then 2 ^ nat k else 1 / 2 ^ nat (- k))"

definition round_half_even :: "rat \<Rightarrow> int" where
  "round_half_even x =
     (let f = \<lfloor>x\<rfloor>; d = x - of_int f
      in if d < 1 / 2 then f else if 1 / 2 < d then f + 1 else if even f then f else f + 1)"

definition binade :: "rat \<Rightarrow> int" where
  "binade x =
     (case quotient_of x of (a, b) \<Rightarrow>
        let d = bitlen a - bitlen b in if pow2 d \<le> x then d else d - 1)"

definition round_double :: "rat \<Rightarrow> rat" where
  "round_double x =
     (if x = 0 then 0
      else let e = max (binade \<bar>x\<bar> - 52) (- 1074)
           in sgn x * of_int (round_half_even (\<bar>x\<bar> * pow2 (- e))) * pow2 e)"

text \<open>
  \<^verbatim>\<open>a / b\<close> on two Python integers: correctly rounded, \<^verbatim>\<open>ZeroDivisionError\<close> for a zero
  divisor, \<^verbatim>\<open>OverflowError\<close> when the rounded quotient is beyond the largest double.
\<close>

definition py_truediv :: "int \<Rightarrow> int \<Rightarrow> py_error + rat" where
  "py_truediv a b =
     (if b = 0 then Inl ZeroDivisionError
      else let q = round_double (of_int a / of_int b)
           in if 1024 \<le> binade \<bar>q\<bar> then Inl OverflowError else Inr q)"

text \<open>
  \<^verbatim>\<open>a / y\<close> for a Python integer and a nonzero float constant: the integer is converted
  to the nearest double first (\<^verbatim>\<open>OverflowError\<close> when there is none), then the two
  doubles are divided.
\<close>

definition py_float_of_int :: "int \<Rightarrow> py_error + rat" where
  "py_float_of_int a =
     (let f = round_double (of_int a)
      in if 1024 \<le> binade \<bar>f\<bar> then Inl OverflowError else Inr f)"

definition py_int_div_float :: "int \<Rightarrow> rat \<Rightarrow> py_error + rat" where
  "py_int_div_float a y =
     (if y = 0 then Inl ZeroDivisionError
      else bind_err (py_float_of_int a) (\<lambda>f. Inr (round_double (f / y))))"

section \<open>The row-level lambdas\<close>

text \<open>
  A Python UDF with the default return type (string): the lambda is called on every
  row, also on a null; an exception makes the cell \<open>Failed\<close>.
\<close>

definition udf :: "(val \<Rightarrow> py_error + string) \<Rightarrow> val \<Rightarrow> val" where
  "udf f v = (case f v of Inl e \<Rightarrow> Failed e | Inr s \<Rightarrow> StrV s)"

text \<open>\<^verbatim>\<open>get_timestamp = udf(lambda x: str(int(int(x)/1000)))\<close>\<close>

definition get_timestamp :: "val \<Rightarrow> val" where
  "get_timestamp =
     udf (\<lambda>x. case py_int x of
                Inl e \<Rightarrow> Inl e
              | Inr n \<Rightarrow>
                  (case py_truediv n 1000 of
                     Inl e \<Rightarrow> Inl e
                   | Inr q \<Rightarrow> Inr (str_int (py_int_of_float q))))"

section \<open>Local date and time\<close>

text \<open>
  \<^verbatim>\<open>get_datetime = udf(lambda x: str(datetime.fromtimestamp(int(x) / 1000.0)))\<close>.
  \<^verbatim>\<open>datetime.fromtimestamp\<close> without a time zone gives the local time of the process
  that runs the lambda. The zone is not set by \<^verbatim>\<open>etl.py\<close>: it is a parameter, the
  function \<open>utcoffset\<close> from a POSIX time to the offset of local time from UTC at that
  instant, in seconds.
\<close>

text \<open>Proleptic Gregorian date (year, month, day) of a day number counted from 1970-01-01.\<close>

definition civil_from_days :: "int \<Rightarrow> int \<times> int \<times> int" where
  "civil_from_days z0 =
     (let z = z0 + 719468;
          era = z div 146097;
          doe = z mod 146097;
          yoe = (doe - doe div 1460 + doe div 36524 - doe div 146096) div 365;
          doy = doe - (365 * yoe + yoe div 4 - yoe div 100);
          mp = (5 * doy + 2) div 153;
          d = doy - (153 * mp + 2) div 5 + 1;
          m = (if mp < 10 then mp + 3 else mp - 9);
          y = yoe + era * 400
      in (if m \<le> 2 then y + 1 else y, m, d))"

record datetime =
  dt_year :: int
  dt_month :: int
  dt_day :: int
  dt_hour :: int
  dt_minute :: int
  dt_second :: int
  dt_microsecond :: int

text \<open>\<^verbatim>\<open>time.localtime(t)\<close> followed by the constructor, which checks the year.\<close>

definition local_datetime :: "(int \<Rightarrow> int) \<Rightarrow> int \<Rightarrow> int \<Rightarrow> py_error + datetime" where
  "local_datetime utcoffset t us =
     (let loc = t + utcoffset t; sod = loc mod 86400
      in case civil_from_days (loc div 86400) of (y, m, d) \<Rightarrow>
           if y < 1 \<or> 9999 < y then Inl ValueError
           else Inr \<lparr>dt_year = y, dt_month = m, dt_day = d, dt_hour = sod div 3600,
                     dt_minute = sod mod 3600 div 60, dt_second = sod mod 60,
                     dt_microsecond = us\<rparr>)"

text \<open>
  The fractional part is rounded to microseconds, half to even. After the conversion,
  \<^verbatim>\<open>fromtimestamp\<close> builds a second datetime 24 hours earlier to detect a repeated
  local time, and a third one when the offset went down in between; they only set the
  \<^verbatim>\<open>fold\<close> attribute, which \<^verbatim>\<open>str\<close> does not print, but their constructors raise as well
  when the year is out of range.
\<close>

definition fromtimestamp :: "(int \<Rightarrow> int) \<Rightarrow> rat \<Rightarrow> py_error + datetime" where
  "fromtimestamp utcoffset x =
     (let ip = py_int_of_float x;
          us0 = round_half_even (round_double ((x - of_int ip) * 1000000));
          t = (if 1000000 \<le> us0 then ip + 1 else if us0 < 0 then ip - 1 else ip);
          us = (if 1000000 \<le> us0 then us0 - 1000000 else if us0 < 0 then us0 + 1000000 else us0);
          trans = utcoffset t - utcoffset (t - 86400)
      in bind_err (local_datetime utcoffset t us) (\<lambda>result.
         bind_err (local_datetime utcoffset (t - 86400) us) (\<lambda>probe1.
         if trans < 0
         then bind_err (local_datetime utcoffset (t + trans) us) (\<lambda>probe2. Inr result)
         else Inr result)))"

definition str_datetime :: "datetime \<Rightarrow> string" where
  "str_datetime dt =
     zero_pad 4 (dt_year dt) @ ''-'' @ zero_pad 2 (dt_month dt) @ ''-'' @ zero_pad 2 (dt_day dt)
     @ '' '' @ zero_pad 2 (dt_hour dt) @ '':'' @ zero_pad 2 (dt_minute dt)
     @ '':'' @ zero_pad 2 (dt_second dt)
     @ (if dt_microsecond dt = 0 then [] else ''.'' @ zero_pad 6 (dt_microsecond dt))"

definition get_datetime :: "(int \<Rightarrow> int) \<Rightarrow> val \<Rightarrow> val" where
  "get_datetime utcoffset =
     udf (\<lambda>x. case py_int x of
                Inl e \<Rightarrow> Inl e
              | Inr n \<Rightarrow>
                  (case py_int_div_float n 1000 of
                     Inl e \<Rightarrow> Inl e
                   | Inr t \<Rightarrow>
                       (case fromtimestamp utcoffset t of
                          Inl e \<Rightarrow> Inl e
                        | Inr dt \<Rightarrow> Inr (str_datetime dt))))"

section \<open>The dataframe engine\<close>

text \<open>
  Spark is not part of the repository. What it leaves open is a parameter of the model:
  the local time zone of the Python workers, the date functions of Spark SQL (which
  cast the string to a date or a timestamp in the session's time zone), the row that
  \<^verbatim>\<open>dropDuplicates\<close> keeps of each group, and the partition sizes of a frame, which
  decide the values of \<^verbatim>\<open>monotonically_increasing_id\<close>.
\<close>

record engine =
  utcoffset :: "int \<Rightarrow> int"
  sql_hour :: "string \<Rightarrow> val"
  sql_dayofmonth :: "string \<Rightarrow> val"
  sql_weekofyear :: "string \<Rightarrow> val"
  sql_month :: "string \<Rightarrow> val"
  sql_year :: "string \<Rightarrow> val"
  keep :: "val list list \<Rightarrow> nat"
  layout :: "nat \<Rightarrow> nat list"

record dataframe =
  columns :: "string list"
  rows :: "val list list"

definition cell :: "val list \<Rightarrow> nat \<Rightarrow> val" where
  "cell r i = (if i < length r then r ! i else Null)"

definition fit :: "nat \<Rightarrow> val list \<Rightarrow> val list" where
  "fit n r = map (cell r) [0..<n]"

text \<open>
  Column names are resolved without regard to case (the default of Spark SQL). A name
  that matches no column or more than one is an \<^verbatim>\<open>AnalysisException\<close>, raised when the
  transformation is called, not when the frame is evaluated.
\<close>

definition matches :: "string list \<Rightarrow> string \<Rightarrow> nat list" where
  "matches cols name = filter (\<lambda>i. lower (cols ! i) = lower name) [0..<length cols]"

definition resolve :: "string list \<Rightarrow> string \<Rightarrow> py_error + nat" where
  "resolve cols name =
     (case matches cols name of
        [] \<Rightarrow> Inl (AnalysisException (''cannot resolve '' @ name))
      | [i] \<Rightarrow> Inr i
      | _ \<Rightarrow> Inl (AnalysisException (''ambiguous reference '' @ name)))"

fun resolve_all :: "string list \<Rightarrow> string list \<Rightarrow> py_error + nat list" where
  "resolve_all cols [] = Inr []"
| "resolve_all cols (n # ns) =
     bind_err (resolve cols n) (\<lambda>i. bind_err (resolve_all cols ns) (\<lambda>js. Inr (i # js)))"

text \<open>\<^verbatim>\<open>df.name\<close>: Python looks the attribute up among the column names, exactly.\<close>

definition attr :: "dataframe \<Rightarrow> string \<Rightarrow> py_error + string" where
  "attr df name = (if name \<in> set (columns df) then Inr name else Inl (AttributeError name))"

text \<open>
  A column expression of the program: the column it reads, what it computes from the
  cell, and the name of the result.
\<close>

record column =
  ref :: string
  fn :: "val \<Rightarrow> val"
  out_name :: string

definition col :: "string \<Rightarrow> column" where
  "col name = \<lparr>ref = name, fn = (\<lambda>v. v), out_name = name\<rparr>"

definition col_alias :: "column \<Rightarrow> string \<Rightarrow> column" where
  "col_alias c name = c\<lparr>out_name := name\<rparr>"

definition call_udf :: "(val \<Rightarrow> val) \<Rightarrow> string \<Rightarrow> column" where
  "call_udf f name = \<lparr>ref = name, fn = f, out_name = ''<lambda>('' @ name @ '')''\<rparr>"

text \<open>A date function of Spark SQL on a string column: null on null, and a failed cell stays failed.\<close>

definition sql_fn :: "(string \<Rightarrow> val) \<Rightarrow> val \<Rightarrow> val" where
  "sql_fn f v = (case v of StrV s \<Rightarrow> f s | Failed e \<Rightarrow> Failed e | _ \<Rightarrow> Null)"

definition hour :: "engine \<Rightarrow> string \<Rightarrow> column" where
  "hour eng name = \<lparr>ref = name, fn = sql_fn (sql_hour eng), out_name = ''hour('' @ name @ '')''\<rparr>"

definition dayofmonth :: "engine \<Rightarrow> string \<Rightarrow> column" where
  "dayofmonth eng name =
     \<lparr>ref = name, fn = sql_fn (sql_dayofmonth eng), out_name = ''dayofmonth('' @ name @ '')''\<rparr>"

definition weekofyear :: "engine \<Rightarrow> string \<Rightarrow> column" where
  "weekofyear eng name =
     \<lparr>ref = name, fn = sql_fn (sql_weekofyear eng), out_name = ''weekofyear('' @ name @ '')''\<rparr>"

definition month :: "engine \<Rightarrow> string \<Rightarrow> column" where
  "month eng name = \<lparr>ref = name, fn = sql_fn (sql_month eng), out_name = ''month('' @ name @ '')''\<rparr>"

definition year :: "engine \<Rightarrow> string \<Rightarrow> column" where
  "year eng name = \<lparr>ref = name, fn = sql_fn (sql_year eng), out_name = ''year('' @ name @ '')''\<rparr>"

definition select :: "column list \<Rightarrow> dataframe \<Rightarrow> py_error + dataframe" where
  "select cs df =
     bind_err (resolve_all (columns df) (map ref cs)) (\<lambda>js.
       Inr \<lparr>columns = map out_name cs,
            rows = map (\<lambda>r. map2 (\<lambda>c j. fn c (cell r j)) cs js) (rows df)\<rparr>)"

text \<open>\<^verbatim>\<open>df['a', 'b', ...]\<close> is \<^verbatim>\<open>df.select('a', 'b', ...)\<close>.\<close>

definition getitem :: "string list \<Rightarrow> dataframe \<Rightarrow> py_error + dataframe" where
  "getitem names df = select (map col names) df"

text \<open>\<^verbatim>\<open>df.filter(c == lit)\<close>: a row stays when the cell equals the literal (a null does not).\<close>

definition filter_eq :: "string \<Rightarrow> val \<Rightarrow> dataframe \<Rightarrow> py_error + dataframe" where
  "filter_eq name lit df =
     bind_err (resolve (columns df) name) (\<lambda>i.
       Inr (df\<lparr>rows := filter (\<lambda>r. cell r i = lit) (rows df)\<rparr>))"

text \<open>
  \<^verbatim>\<open>withColumn\<close> replaces the columns of that name when there are any, and appends the
  column otherwise: the new list of names, and the new row for a value.
\<close>

definition put_name :: "string list \<Rightarrow> string \<Rightarrow> string list" where
  "put_name cols name =
     (if matches cols name = [] then cols @ [name]
      else map (\<lambda>c. if lower c = lower name then name else c) cols)"

definition put_cell :: "string list \<Rightarrow> string \<Rightarrow> val list \<Rightarrow> val \<Rightarrow> val list" where
  "put_cell cols name r v =
     (if matches cols name = [] then fit (length cols) r @ [v]
      else map (\<lambda>i. if lower (cols ! i) = lower name then v else cell r i) [0..<length cols])"

definition with_column_values :: "string \<Rightarrow> val list \<Rightarrow> dataframe \<Rightarrow> dataframe" where
  "with_column_values name vs df =
     \<lparr>columns = put_name (columns df) name,
      rows = map2 (put_cell (columns df) name) (rows df) vs\<rparr>"

definition withColumn :: "string \<Rightarrow> column \<Rightarrow> dataframe \<Rightarrow> py_error + dataframe" where
  "withColumn name c df =
     bind_err (resolve (columns df) (ref c)) (\<lambda>i.
       Inr (with_column_values name (map (\<lambda>r. fn c (cell r i)) (rows df)) df))"

text \<open>
  \<^verbatim>\<open>dropDuplicates([key])\<close>: one row of each group of rows with the same key, the one the
  engine chooses.
\<close>

definition dedup :: "(val list list \<Rightarrow> nat) \<Rightarrow> (val list \<Rightarrow> val) \<Rightarrow> val list list \<Rightarrow> val list list" where
  "dedup ch key rs =
     map (\<lambda>k. let g = filter (\<lambda>r. key r = k) rs in g ! (ch g mod length g))
         (remdups (map key rs))"

definition dropDuplicates :: "engine \<Rightarrow> string \<Rightarrow> dataframe \<Rightarrow> py_error + dataframe" where
  "dropDuplicates eng name df =
     bind_err (resolve (columns df) name) (\<lambda>i.
       Inr (df\<lparr>rows := dedup (keep eng) (\<lambda>r. cell r i) (rows df)\<rparr>))"

text \<open>
  \<^verbatim>\<open>df.join(song_df, song_df.title == df.song)\<close>: an inner join; a pair of rows is joined
  when the two cells are equal and not null. The columns of both frames are kept.
\<close>

definition join_rows :: "dataframe \<Rightarrow> nat \<Rightarrow> dataframe \<Rightarrow> nat \<Rightarrow> val list list" where
  "join_rows df i song_df j =
     concat (map (\<lambda>l. map (\<lambda>r. fit (length (columns df)) l @ fit (length (columns song_df)) r)
                          (filter (\<lambda>r. cell r j = cell l i \<and> cell l i \<noteq> Null) (rows song_df)))
                 (rows df))"

definition join :: "dataframe \<Rightarrow> dataframe \<Rightarrow> py_error + dataframe" where
  "join df song_df =
     bind_err (attr song_df ''title'') (\<lambda>title.
     bind_err (attr df ''song'') (\<lambda>song.
     bind_err (resolve (columns song_df) title) (\<lambda>j.
     bind_err (resolve (columns df) song) (\<lambda>i.
       Inr \<lparr>columns = columns df @ columns song_df, rows = join_rows df i song_df j\<rparr>))))"

text \<open>
  \<^verbatim>\<open>monotonically_increasing_id()\<close>: the partition index in the upper bits, the position
  of the row in its partition in the lower 33 bits, as a signed 64-bit integer. The rows
  are laid out in partitions of the sizes the engine chooses; rows beyond them are in
  one more partition.
\<close>

definition wrap64 :: "int \<Rightarrow> int" where
  "wrap64 x = (x + 2 ^ 63) mod 2 ^ 64 - 2 ^ 63"

fun partition_ids :: "nat \<Rightarrow> nat list \<Rightarrow> int list" where
  "partition_ids p [] = []"
| "partition_ids p (s # ss) =
     map (\<lambda>k. wrap64 (int p * 2 ^ 33 + int k)) [0..<s] @ partition_ids (Suc p) ss"

definition partitions :: "engine \<Rightarrow> nat \<Rightarrow> nat list" where
  "partitions eng n = layout eng n @ [n - sum_list (layout eng n)]"

definition monotonically_increasing_id :: "engine \<Rightarrow> nat \<Rightarrow> val list" where
  "monotonically_increasing_id eng n = map IntV (take n (partition_ids 0 (partitions eng n)))"

section \<open>Storage\<close>

text \<open>
  The object store maps a path to what is stored there: a frame and the columns it is
  partitioned by. An input path is the glob pattern the program reads.
\<close>

record table =
  partition_by :: "string list"
  frame :: dataframe

type_synonym store = "string \<Rightarrow> table option"

definition spark_read_json :: "store \<Rightarrow> string \<Rightarrow> py_error + dataframe" where
  "spark_read_json st path =
     (case st path of
        None \<Rightarrow> Inl (AnalysisException (''Path does not exist: '' @ path))
      | Some t \<Rightarrow>
          if distinct (map lower (columns (frame t))) then Inr (frame t)
          else Inl (AnalysisException ''Found duplicate column(s) in the data schema''))"

definition failures :: "dataframe \<Rightarrow> py_error list" where
  "failures df = concat (map (\<lambda>r. concat (map (\<lambda>v. case v of Failed e \<Rightarrow> [e] | _ \<Rightarrow> []) r)) (rows df))"

text \<open>
  \<^verbatim>\<open>df.write.partitionBy(...).parquet(path, 'overwrite')\<close>. The partition columns are
  resolved first; then what is at the path is deleted and the frame is evaluated and
  written. A lambda that raises fails the job, and leaves no table at the path.
\<close>

definition write_parquet :: "string list \<Rightarrow> string \<Rightarrow> dataframe \<Rightarrow> store \<Rightarrow> store \<times> py_error option" where
  "write_parquet pcols path df st =
     (case resolve_all (columns df) pcols of
        Inl e \<Rightarrow> (st, Some e)
      | Inr _ \<Rightarrow>
          (case failures df of
             [] \<Rightarrow> (st(path \<mapsto> \<lparr>partition_by = pcols, frame = df\<rparr>), None)
           | e # _ \<Rightarrow> (st(path := None), Some e)))"

text \<open>\<^verbatim>\<open>os.path.join\<close> (POSIX).\<close>

definition path_join :: "string \<Rightarrow> string \<Rightarrow> string" where
  "path_join a b =
     (if b \<noteq> [] \<and> hd b = CHR ''/'' then b
      else if a = [] \<or> last a = CHR ''/'' then a @ b
      else a @ ''/'' @ b)"

section \<open>The catalog pipeline\<close>

definition songs_table :: "engine \<Rightarrow> dataframe \<Rightarrow> py_error + dataframe" where
  "songs_table eng df =
     bind_err (getitem [''song_id'', ''title'', ''artist_id'', ''year'', ''duration''] df)
       (dropDuplicates eng ''song_id'')"

definition artists_table :: "engine \<Rightarrow> dataframe \<Rightarrow> py_error + dataframe" where
  "artists_table eng df =
     bind_err (getitem [''artist_id'', ''artist_name'', ''artist_location'',
                        ''artist_latitude'', ''artist_longitude''] df)
       (dropDuplicates eng ''artist_id'')"

definition process_song_data :: "engine \<Rightarrow> string \<Rightarrow> string \<Rightarrow> store \<Rightarrow> store \<times> py_error option" where
  "process_song_data eng input_data output_data st =
     (case spark_read_json st (input_data @ ''song_data/A/A/*/*.json'') of
        Inl e \<Rightarrow> (st, Some e)
      | Inr df \<Rightarrow>
     (case songs_table eng df of
        Inl e \<Rightarrow> (st, Some e)
      | Inr songs \<Rightarrow>
     (case write_parquet [''year'', ''artist_id''] (path_join output_data ''songs.parquet'') songs st of
        (st1, Some e) \<Rightarrow> (st1, Some e)
      | (st1, None) \<Rightarrow>
     (case artists_table eng df of
        Inl e \<Rightarrow> (st1, Some e)
      | Inr artists \<Rightarrow>
          write_parquet [] (path_join output_data ''artists.parquet'') artists st1))))"

section \<open>The event pipeline\<close>

text \<open>\<^verbatim>\<open>df = df.filter(df.page == 'NextSong')\<close>\<close>

definition next_song_events :: "dataframe \<Rightarrow> py_error + dataframe" where
  "next_song_events df =
     bind_err (attr df ''page'') (\<lambda>page. filter_eq page (StrV ''NextSong'') df)"

definition users_table :: "engine \<Rightarrow> dataframe \<Rightarrow> py_error + dataframe" where
  "users_table eng df =
     bind_err (getitem [''userId'', ''firstName'', ''lastName'', ''gender'', ''level''] df)
       (dropDuplicates eng ''userId'')"

text \<open>The two \<^verbatim>\<open>withColumn\<close> calls, \<^verbatim>\<open>timestamp\<close> and \<^verbatim>\<open>datetime\<close>, each of \<^verbatim>\<open>df.ts\<close>.\<close>

definition with_timestamps :: "engine \<Rightarrow> dataframe \<Rightarrow> py_error + dataframe" where
  "with_timestamps eng df =
     bind_err (attr df ''ts'') (\<lambda>ts.
     bind_err (withColumn ''timestamp'' (call_udf get_timestamp ts) df) (\<lambda>df1.
     bind_err (attr df1 ''ts'') (\<lambda>ts1.
       withColumn ''datetime'' (call_udf (get_datetime (utcoffset eng)) ts1) df1)))"

definition time_table :: "engine \<Rightarrow> dataframe \<Rightarrow> py_error + dataframe" where
  "time_table eng df =
     bind_err (select [col_alias (col ''datetime'') ''start_time'',
                       col_alias (hour eng ''datetime'') ''hour'',
                       col_alias (dayofmonth eng ''datetime'') ''day'',
                       col_alias (weekofyear eng ''datetime'') ''week'',
                       col_alias (month eng ''datetime'') ''month'',
                       col_alias (year eng ''datetime'') ''year''] df)
       (dropDuplicates eng ''start_time'')"

definition songplays_table :: "engine \<Rightarrow> dataframe \<Rightarrow> dataframe \<Rightarrow> py_error + dataframe" where
  "songplays_table eng df song_df =
     bind_err (join df song_df) (\<lambda>joined.
     bind_err (select [col_alias (col ''ts'') ''ts'',
                       col_alias (col ''userId'') ''user_id'',
                       col_alias (col ''level'') ''level'',
                       col_alias (col ''song_id'') ''song_id'',
                       col_alias (col ''artist_id'') ''artist_id'',
                       col_alias (col ''ssessionId'') ''session_id'',
                       col_alias (col ''location'') ''location'',
                       col_alias (col ''userAgent'') ''user_agent'',
                       col_alias (col ''year'') ''year'',
                       col_alias (month eng ''datetime'') ''month''] joined) (\<lambda>sel.
       Inr (with_column_values ''songplay_id''
              (monotonically_increasing_id eng (length (rows sel))) sel)))"

definition process_log_data :: "engine \<Rightarrow> string \<Rightarrow> string \<Rightarrow> store \<Rightarrow> store \<times> py_error option" where
  "process_log_data eng input_data output_data st =
     (case bind_err (spark_read_json st (input_data @ ''log_data/*/*/*.json'')) next_song_events of
        Inl e \<Rightarrow> (st, Some e)
      | Inr df \<Rightarrow>
     (case users_table eng df of
        Inl e \<Rightarrow> (st, Some e)
      | Inr users \<Rightarrow>
     (case write_parquet [] (path_join output_data ''users.parquet'') users st of
        (st1, Some e) \<Rightarrow> (st1, Some e)
      | (st1, None) \<Rightarrow>
     (case bind_err (with_timestamps eng df) (\<lambda>df2. bind_err (time_table eng df2) (\<lambda>t. Inr (df2, t))) of
        Inl e \<Rightarrow> (st1, Some e)
      | Inr (df2, time_tbl) \<Rightarrow>
     (case write_parquet [''year'', ''month''] (path_join output_data ''time.parquet'') time_tbl st1 of
        (st2, Some e) \<Rightarrow> (st2, Some e)
      | (st2, None) \<Rightarrow>
     (case bind_err (spark_read_json st2 (input_data @ ''song_data/A/A/*/*.json''))
             (songplays_table eng df2) of
        Inl e \<Rightarrow> (st2, Some e)
      | Inr songplays \<Rightarrow>
          write_parquet [''year'', ''month''] (path_join output_data ''songplays.parquet'')
            songplays st2))))))"

definition main :: "engine \<Rightarrow> store \<Rightarrow> store \<times> py_error option" where
  "main eng st =
     (case process_song_data eng ''s3a://udacity-dend/'' ''s3a://gharibudacity/'' st of
        (st1, Some e) \<Rightarrow> (st1, Some e)
      | (st1, None) \<Rightarrow> process_log_data eng ''s3a://udacity-dend/'' ''s3a://gharibudacity/'' st1)"

section \<open>Credentials and the program\<close>

text \<open>
  The module-level statements of \<^verbatim>\<open>etl.py\<close> run before \<^verbatim>\<open>main()\<close>. The parsed
  configuration maps a section name to the options that \<^verbatim>\<open>config[section]\<close> shows
  (those inherited from the default section included), with option names in lower
  case, as \<^verbatim>\<open>configparser\<close> stores them. \<^verbatim>\<open>config.read\<close> skips a file that does not
  exist, which leaves the configuration empty.
\<close>

type_synonym config = "string \<Rightarrow> (string \<Rightarrow> string option) option"

type_synonym environ = "string \<Rightarrow> string option"

definition config_read :: "(string \<Rightarrow> config option) \<Rightarrow> string \<Rightarrow> config" where
  "config_read files name = (case files name of None \<Rightarrow> Map.empty | Some c \<Rightarrow> c)"

text \<open>\<^verbatim>\<open>config[section][key]\<close>\<close>

definition config_get :: "config \<Rightarrow> string \<Rightarrow> string \<Rightarrow> py_error + string" where
  "config_get config section key =
     (case config section of
        None \<Rightarrow> Inl (KeyError section)
      | Some opts \<Rightarrow>
          (case opts (lower key) of None \<Rightarrow> Inl (KeyError key) | Some v \<Rightarrow> Inr v))"

definition load_config :: "(string \<Rightarrow> config option) \<Rightarrow> environ \<Rightarrow> environ \<times> py_error option" where
  "load_config files env =
     (let config = config_read files ''dl.cfg'' in
      case config_get config ''KEYS'' ''AWS_ACCESS_KEY_ID'' of
        Inl e \<Rightarrow> (env, Some e)
      | Inr v \<Rightarrow>
          (let env1 = env(''AWS_ACCESS_KEY_ID'' \<mapsto> v) in
           case config_get config ''KEYS'' ''AWS_SECRET_ACCESS_KEY'' of
             Inl e \<Rightarrow> (env1, Some e)
           | Inr w \<Rightarrow> (env1(''AWS_SECRET_ACCESS_KEY'' \<mapsto> w), None)))"

text \<open>
  The script run as \<^verbatim>\<open>__main__\<close>: the module-level statements, then \<^verbatim>\<open>main()\<close>. An
  exception is not caught anywhere: it ends the run with the environment and the store
  as they are at that point.
\<close>

definition etl :: "engine \<Rightarrow> (string \<Rightarrow> config option) \<Rightarrow> environ \<times> store
    \<Rightarrow> (environ \<times> store) \<times> py_error option" where
  "etl eng files w =
     (case load_config files (fst w) of
        (env, Some e) \<Rightarrow> ((env, snd w), Some e)
      | (env, None) \<Rightarrow> (case main eng (snd w) of (st, r) \<Rightarrow> ((env, st), r)))"

section \<open>Reading a table\<close>

text \<open>The values of a column of a table, in row order; \<open>None\<close> when the name does not resolve.\<close>

definition key_values :: "dataframe \<Rightarrow> string \<Rightarrow> val list option" where
  "key_values t name =
     (case resolve (columns t) name of
        Inl _ \<Rightarrow> None
      | Inr i \<Rightarrow> Some (map (\<lambda>r. cell r i) (rows t)))"

section \<open>A reference engine and sample inputs\<close>

text \<open>
  One engine to run the model on: every process in UTC, the date functions reading the
  fields of a string \<^verbatim>\<open>YYYY-MM-DD HH:MM:SS[.ffffff]\<close> (the ISO week for
  \<^verbatim>\<open>weekofyear\<close>), \<^verbatim>\<open>dropDuplicates\<close> keeping the first row of a group, and every frame
  in one partition.
\<close>

definition days_from_civil :: "int \<Rightarrow> int \<Rightarrow> int \<Rightarrow> int" where
  "days_from_civil y0 m d =
     (let y = (if m \<le> 2 then y0 - 1 else y0);
          era = y div 400;
          yoe = y mod 400;
          doy = (153 * (if 2 < m then m - 3 else m + 9) + 2) div 5 + d - 1;
          doe = yoe * 365 + yoe div 4 - yoe div 100 + doy
      in era * 146097 + doe - 719468)"

definition iso_week :: "int \<Rightarrow> int \<Rightarrow> int \<Rightarrow> int" where
  "iso_week y m d =
     (let n = days_from_civil y m d;
          thursday = n - (n + 3) mod 7 + 3
      in case civil_from_days thursday of (ty, _, _) \<Rightarrow>
           (thursday - days_from_civil ty 1 1) div 7 + 1)"

definition field_at :: "nat \<Rightarrow> nat \<Rightarrow> string \<Rightarrow> int option" where
  "field_at i w s =
     (let t = take w (drop i s)
      in if length t = w \<and> list_all is_digit t
         then Some (foldl (\<lambda>a c. 10 * a + (of_char c - 48)) 0 t) else None)"

definition int_or_null :: "int option \<Rightarrow> val" where
  "int_or_null x = (case x of None \<Rightarrow> Null | Some i \<Rightarrow> IntV i)"

definition utc_weekofyear :: "string \<Rightarrow> val" where
  "utc_weekofyear s =
     (case (field_at 0 4 s, field_at 5 2 s, field_at 8 2 s) of
        (Some y, Some m, Some d) \<Rightarrow> IntV (iso_week y m d)
      | _ \<Rightarrow> Null)"

definition utc_engine :: engine where
  "utc_engine =
     \<lparr>utcoffset = (\<lambda>t. 0),
      sql_hour = (\<lambda>s. int_or_null (field_at 11 2 s)),
      sql_dayofmonth = (\<lambda>s. int_or_null (field_at 8 2 s)),
      sql_weekofyear = utc_weekofyear,
      sql_month = (\<lambda>s. int_or_null (field_at 5 2 s)),
      sql_year = (\<lambda>s. int_or_null (field_at 0 4 s)),
      keep = (\<lambda>g. 0),
      layout = (\<lambda>n. [n])\<rparr>"

text \<open>The song record and the event of the end-to-end scenario of the specification.\<close>

definition scenario_song_df :: dataframe where
  "scenario_song_df =
     \<lparr>columns = [''song_id'', ''title'', ''artist_id'', ''year'', ''duration''],
      rows = [[StrV ''SOZCTXZ12AB0182364'', StrV ''Setanta matins'', StrV ''AR5KOSW1187FB35FF4'',
               IntV 0, DblV (26958 / 100)]]\<rparr>"

definition scenario_log_df :: dataframe where
  "scenario_log_df =
     \<lparr>columns = [''page'', ''song'', ''userId'', ''ts'', ''level'', ''sessionId'', ''location'',
                 ''userAgent''],
      rows = [[StrV ''NextSong'', StrV ''Setanta matins'', StrV ''10'', IntV 1541990258796,
               StrV ''free'', IntV 582, StrV ''...'', StrV ''...'']]\<rparr>"

text \<open>Two songs of one title by different artists, and one event that plays that title.\<close>

definition fanout_song_df :: dataframe where
  "fanout_song_df =
     \<lparr>columns = [''song_id'', ''title'', ''artist_id'', ''year'', ''duration''],
      rows = [[StrV ''SO1'', StrV ''Same Title'', StrV ''AR1'', IntV 1999, DblV 200],
              [StrV ''SO2'', StrV ''Same Title'', StrV ''AR2'', IntV 2005, DblV 180]]\<rparr>"

definition fanout_log_df :: dataframe where
  "fanout_log_df =
     \<lparr>columns = [''page'', ''song'', ''userId'', ''ts'', ''level'', ''sessionId'', ''location'',
                 ''userAgent''],
      rows = [[StrV ''NextSong'', StrV ''Same Title'', StrV ''10'', IntV 1541990258796,
               StrV ''free'', IntV 582, StrV ''...'', StrV ''...'']]\<rparr>"

text \<open>
  A catalog with a repeated song, and a log with a page view among the plays. The second
  log has its session column under the name that line 116 of \<^verbatim>\<open>etl.py\<close> asks for.
\<close>

definition sample_song_df :: dataframe where
  "sample_song_df =
     \<lparr>columns = [''artist_id'', ''artist_latitude'', ''artist_location'', ''artist_longitude'',
                 ''artist_name'', ''duration'', ''song_id'', ''title'', ''year''],
      rows = [[StrV ''AR5KOSW1187FB35FF4'', DblV (4980701 / 100000), StrV ''Dubai UAE'',
               DblV (1523011 / 100000), StrV ''Elena'', DblV (26958 / 100),
               StrV ''SOZCTXZ12AB0182364'', StrV ''Setanta matins'', IntV 0],
              [StrV ''AR5KOSW1187FB35FF4'', Null, Null, Null, StrV ''Elena'',
               DblV (26958 / 100), StrV ''SOZCTXZ12AB0182364'', StrV ''Setanta matins'',
               IntV 2004]]\<rparr>"

definition sample_play_row :: "val list" where
  "sample_play_row =
     [StrV ''Sylvie'', StrV ''F'', StrV ''Cruz'', StrV ''free'', StrV ''Washington'',
      StrV ''NextSong'', IntV 582, StrV ''Setanta matins'', IntV 1541990258796,
      StrV ''Mozilla'', StrV ''10'']"

definition sample_home_row :: "val list" where
  "sample_home_row =
     [StrV ''Sylvie'', StrV ''F'', StrV ''Cruz'', StrV ''free'', StrV ''Washington'',
      StrV ''Home'', IntV 582, Null, IntV 1541990264796, StrV ''Mozilla'', StrV ''10'']"

definition sample_paid_row :: "val list" where
  "sample_paid_row =
     [StrV ''Sylvie'', StrV ''F'', StrV ''Cruz'', StrV ''paid'', StrV ''Washington'',
      StrV ''NextSong'', IntV 583, StrV ''Setanta matins'', IntV 1541990258796,
      StrV ''Mozilla'', StrV ''10'']"

definition sample_rows :: "val list list" where
  "sample_rows = [sample_play_row, sample_home_row, sample_paid_row]"

definition sample_log_df :: dataframe where
  "sample_log_df =
     \<lparr>columns = [''firstName'', ''gender'', ''lastName'', ''level'', ''location'', ''page'',
                 ''sessionId'', ''song'', ''ts'', ''userAgent'', ''userId''],
      rows = sample_rows\<rparr>"


text \<open>A configuration file with both credentials, and the stores the samples are read from.\<close>

definition sample_files :: "string \<Rightarrow> config option" where
  "sample_files =
     [''dl.cfg'' \<mapsto> [''KEYS'' \<mapsto> [''aws_access_key_id'' \<mapsto> ''AKIAEXAMPLE'',
                                       ''aws_secret_access_key'' \<mapsto> ''abc/123+xyz'']]]"

definition sample_store :: store where
  "sample_store =
     [''s3a://udacity-dend/song_data/A/A/*/*.json'' \<mapsto> \<lparr>partition_by = [], frame = sample_song_df\<rparr>,
      ''s3a://udacity-dend/log_data/*/*/*.json'' \<mapsto> \<lparr>partition_by = [], frame = sample_log_df\<rparr>]"

section \<open>Comparing two runs\<close>

text \<open>
  Two runs started in the stores \<open>s\<close> and \<open>s'\<close> have reached \<open>a\<close> and \<open>a'\<close> by the same
  writes: every path holds the same in both, or is as it was at the start in both.
\<close>

definition same_effect :: "store \<Rightarrow> store \<Rightarrow> store \<Rightarrow> store \<Rightarrow> bool" where
  "same_effect s s' a a' \<longleftrightarrow> (\<forall>p. a p = a' p \<or> (a p = s p \<and> a' p = s' p))"

section \<open>The columns of the songplays selection\<close>


section \<open>Properties of the binary64 model\<close>

lemma pow2_powi: "pow2 k = 2 powi k"
  by (simp add: pow2_def power_int_def field_simps)

lemma pow2_pos: "0 < pow2 k"
  by (simp add: pow2_powi)

lemma pow2_add: "pow2 (a + b) = pow2 a * pow2 b"
  by (simp add: pow2_powi power_int_add)

lemma pow2_mono: "a \<le> b \<Longrightarrow> pow2 a \<le> pow2 b"
  by (simp add: pow2_powi power_int_increasing)

lemma pow2_less_cancel: "pow2 a < pow2 b \<Longrightarrow> a < b"
  using pow2_mono [of b a] by (cases "a < b") auto

lemma pow2_of_nat: "0 \<le> k \<Longrightarrow> pow2 k = of_int (2 ^ nat k)"
  by (simp add: pow2_def)

lemma bitlen_pow2_bounds:
  assumes "0 < a"
  shows "pow2 (bitlen a - 1) \<le> of_int a" and "of_int a < pow2 (bitlen a)"
proof -
  have l: "1 \<le> bitlen a"
    using assms bitlen_eq_zero_iff [of a] bitlen_nonneg [of a] by (cases "bitlen a = 0") auto
  from bitlen_bounds [OF assms]
  have lo: "2 ^ nat (bitlen a - 1) \<le> a" and hi: "a < 2 ^ nat (bitlen a)" by auto
  have "pow2 (bitlen a - 1) = of_int (2 ^ nat (bitlen a - 1))"
    using l by (intro pow2_of_nat) simp
  also have "\<dots> \<le> of_int a" using lo by (simp only: of_int_le_iff)
  finally show "pow2 (bitlen a - 1) \<le> of_int a" .
  have "(of_int a :: rat) < of_int (2 ^ nat (bitlen a))" using hi by (simp only: of_int_less_iff)
  also have "\<dots> = pow2 (bitlen a)" using l by (intro pow2_of_nat [symmetric]) simp
  finally show "of_int a < pow2 (bitlen a)" .
qed

text \<open>The exponent computed from the bit lengths is the right one.\<close>

lemma binade_bounds:
  assumes "0 < x"
  shows "pow2 (binade x) \<le> x \<and> x < pow2 (binade x + 1)"
proof -
  obtain a b where ab: "quotient_of x = (a, b)" by (cases "quotient_of x")
  have b: "0 < b" using quotient_of_denom_pos [OF ab] .
  have x: "x = of_int a / of_int b" using quotient_of_div [OF ab] .
  have a: "0 < a" using assms b x by (simp add: zero_less_divide_iff)
  define d where "d = bitlen a - bitlen b"
  have B: "0 < (of_int b :: rat)" using b by simp
  have "pow2 (d - 1) * of_int b \<le> pow2 (d - 1) * pow2 (bitlen b)"
    using bitlen_pow2_bounds(2) [OF b] pow2_pos [of "d - 1"] by simp
  also have "\<dots> = pow2 (bitlen a - 1)"
    by (simp add: d_def pow2_add [symmetric])
  also have "\<dots> \<le> of_int a" by (rule bitlen_pow2_bounds(1) [OF a])
  finally have lo: "pow2 (d - 1) \<le> x"
    using B by (simp add: x pos_le_divide_eq)
  have "of_int a < pow2 (bitlen a)" by (rule bitlen_pow2_bounds(2) [OF a])
  also have "\<dots> = pow2 (d + 1) * pow2 (bitlen b - 1)"
    by (simp add: d_def pow2_add [symmetric])
  also have "\<dots> \<le> pow2 (d + 1) * of_int b"
    using bitlen_pow2_bounds(1) [OF b] pow2_pos [of "d + 1"] by simp
  finally have hi: "x < pow2 (d + 1)"
    using B by (simp add: x pos_divide_less_eq)
  show ?thesis
  proof (cases "pow2 d \<le> x")
    case True
    then have "binade x = d" by (simp add: binade_def ab d_def)
    with True hi show ?thesis by simp
  next
    case False
    then have "binade x = d - 1" by (simp add: binade_def ab d_def)
    with False lo show ?thesis by simp
  qed
qed

lemma binade_less:
  assumes "0 \<le> x" and "x < pow2 k" and "- 2 < k"
  shows "binade x < k"
proof (cases "x = 0")
  case True
  have "binade 0 = - 2" by code_simp
  with True assms(3) show ?thesis by simp
next
  case False
  with assms(1) have "0 < x" by simp
  from binade_bounds [OF this] assms(2) have "pow2 (binade x) < pow2 k" by simp
  then show ?thesis by (rule pow2_less_cancel)
qed

lemma round_half_even_ge: "of_int k \<le> x \<Longrightarrow> k \<le> round_half_even x"
proof -
  assume "of_int k \<le> x"
  then have "k \<le> \<lfloor>x\<rfloor>" by (simp add: le_floor_iff)
  then show ?thesis by (simp add: round_half_even_def Let_def)
qed

lemma round_half_even_less:
  assumes "x < of_int N - 1 / 2"
  shows "round_half_even x < N"
proof -
  have fl: "\<lfloor>x\<rfloor> < N" using assms by (simp add: floor_less_iff)
  show ?thesis
  proof (cases "x - of_int \<lfloor>x\<rfloor> < 1 / 2")
    case True
    then show ?thesis using fl by (simp add: round_half_even_def Let_def)
  next
    case False
    then have "of_int \<lfloor>x\<rfloor> + 1 / 2 \<le> x" by simp
    with assms have "(of_int \<lfloor>x\<rfloor> :: rat) + 1 < of_int N" by simp
    then have "\<lfloor>x\<rfloor> + 1 < N" by (metis of_int_1 of_int_add of_int_less_iff)
    then show ?thesis by (simp add: round_half_even_def Let_def)
  qed
qed

text \<open>
  Below \<open>2^53\<close> the quotient by 1000 is below \<open>2^44\<close>, where doubles are at most
  \<open>2^(-9)\<close> apart: half of that is less than \<open>1/1000\<close>, the least distance of a
  non-integral quotient from the next integer, so rounding never reaches it.
\<close>

lemma round_double_div_1000:
  assumes "0 \<le> n" and "n < 2 ^ 53"
  shows "of_int (n div 1000) \<le> round_double (of_int n / 1000)
         \<and> round_double (of_int n / 1000) < of_int (n div 1000) + 1"
proof (cases "n = 0")
  case True
  then show ?thesis by (simp add: round_double_def)
next
  case False
  define q :: rat where "q = of_int n / 1000"
  define k where "k = n div 1000"
  have qpos: "0 < q" using assms False by (simp add: q_def)
  have n_eq: "n = 1000 * k + n mod 1000" by (simp add: k_def)
  have "n mod 1000 \<le> 999" using pos_mod_bound [of 1000 n] by simp
  then have "(of_int (n mod 1000) :: rat) \<le> 999" by (metis of_int_le_iff of_int_numeral)
  moreover have "(0::rat) \<le> of_int (n mod 1000)" by simp
  moreover have "q = of_int k + of_int (n mod 1000) / 1000"
    unfolding q_def by (subst n_eq) (simp add: field_simps)
  ultimately have q_lo: "of_int k \<le> q" and q_hi: "q \<le> of_int k + 999 / 1000" by auto
  have "(of_int n :: rat) < 2 ^ 53"
    using assms(2) by (metis of_int_less_iff of_int_numeral of_int_power)
  then have "q < pow2 44" by (simp add: q_def pow2_def)
  with binade_bounds [OF qpos] have "pow2 (binade q) < pow2 44" by simp
  then have be: "binade q < 44" by (rule pow2_less_cancel)
  define e where "e = max (binade q - 52) (- 1074)"
  define j where "j = nat (- e)"
  have e: "e \<le> - 9" using be by (simp add: e_def)
  then have j: "9 \<le> j" by (simp add: j_def)
  have s: "pow2 (- e) = 2 ^ j" and s': "pow2 e = 1 / 2 ^ j"
    using e by (simp_all add: pow2_def j_def)
  have "(2::rat) ^ 9 \<le> 2 ^ j" using j by (intro power_increasing) simp_all
  then have big: "(512::rat) \<le> 2 ^ j" by simp
  define m where "m = round_half_even (q * 2 ^ j)"
  have rd: "round_double (of_int n / 1000) = of_int m / 2 ^ j"
    using qpos
    by (simp add: round_double_def q_def [symmetric] e_def [symmetric] Let_def s s' m_def)
  have "of_int (k * 2 ^ j) \<le> q * 2 ^ j" using q_lo by (simp add: mult_right_mono)
  then have m_lo: "k * 2 ^ j \<le> m" unfolding m_def by (rule round_half_even_ge)
  have "q * 2 ^ j \<le> (of_int k + 999 / 1000) * 2 ^ j" using q_hi by (simp add: mult_right_mono)
  also have "\<dots> = of_int ((k + 1) * 2 ^ j) - 2 ^ j / 1000" by (simp add: field_simps)
  also have "\<dots> < of_int ((k + 1) * 2 ^ j) - 1 / 2" using big by simp
  finally have m_hi: "m < (k + 1) * 2 ^ j" unfolding m_def by (rule round_half_even_less)
  have p: "(0::rat) < 2 ^ j" by simp
  have "of_int k \<le> (of_int m :: rat) / 2 ^ j"
  proof -
    have "(of_int (k * 2 ^ j) :: rat) \<le> of_int m" using m_lo by (simp only: of_int_le_iff)
    then show ?thesis using p by (simp add: pos_le_divide_eq)
  qed
  moreover have "(of_int m :: rat) / 2 ^ j < of_int k + 1"
  proof -
    have "(of_int m :: rat) < of_int ((k + 1) * 2 ^ j)" using m_hi by (simp only: of_int_less_iff)
    then show ?thesis using p by (simp add: pos_divide_less_eq)
  qed
  ultimately show ?thesis by (simp add: rd k_def)
qed

lemma py_truediv_1000:
  assumes "0 \<le> n" and "n < 2 ^ 53"
  shows "\<exists>q. py_truediv n 1000 = Inr q \<and> py_int_of_float q = n div 1000"
proof -
  define q where "q = round_double (of_int n / 1000)"
  from round_double_div_1000 [OF assms]
  have lo: "of_int (n div 1000) \<le> q" and hi: "q < of_int (n div 1000) + 1"
    by (simp_all add: q_def)
  have k0: "0 \<le> n div 1000" using assms(1) by (simp add: pos_imp_zdiv_nonneg_iff)
  then have q0: "0 \<le> q" using lo by (meson of_int_0_le_iff order_trans)
  have "n div 1000 \<le> n"
    using assms(1) int_div_le_self [of n 1000] by (cases "n = 0") auto
  with assms(2) have "n div 1000 + 1 \<le> 2 ^ 53" by simp
  then have "(of_int (n div 1000 + 1) :: rat) \<le> of_int (2 ^ 53)" by (simp only: of_int_le_iff)
  then have "(of_int (n div 1000) :: rat) + 1 \<le> pow2 53" by (simp add: pow2_def)
  with hi have "q < pow2 53" by simp
  from binade_less [OF q0 this] have "binade \<bar>q\<bar> < 1024" using q0 by simp
  then have "py_truediv n 1000 = Inr q" by (simp add: py_truediv_def q_def Let_def)
  moreover have "\<lfloor>q\<rfloor> = n div 1000" using lo hi by (simp add: floor_unique)
  then have "py_int_of_float q = n div 1000" using q0 by (simp add: py_int_of_float_def)
  ultimately show ?thesis by blast
qed

section \<open>The second-epoch string\<close>

text \<open>
  C10. For every nonnegative integer \<open>ts\<close> below \<open>2^53\<close>, \<open>get_timestamp\<close>, which
  computes \<^verbatim>\<open>str(int(int(x)/1000))\<close> through a floating-point division, returns
  exactly the decimal string of \<open>ts div 1000\<close>.
\<close>

theorem get_timestamp_exact:
  assumes "0 \<le> ts" and "ts < 2 ^ 53"
  shows "get_timestamp (IntV ts) = StrV (str_int (ts div 1000))"
proof -
  from py_truediv_1000 [OF assms] obtain q
    where "py_truediv ts 1000 = Inr q" and "py_int_of_float q = ts div 1000" by blast
  then show ?thesis by (simp add: get_timestamp_def udf_def py_int_def)
qed

theorem get_timestamp_exact_witness:
  "(0::int) \<le> 1541990258796 \<and> (1541990258796::int) < 2 ^ 53
   \<and> get_timestamp (IntV 1541990258796) = StrV ''1541990258''"
proof -
  have s: "str_int 1541990258 = ''1541990258''" by code_simp
  show ?thesis using get_timestamp_exact [of 1541990258796] by (simp add: s)
qed

section \<open>Deduplicated tables\<close>

lemma bind_err_Inr:
  "bind_err m f = Inr y \<longleftrightarrow> (\<exists>x. m = Inr x \<and> f x = Inr y)"
  by (cases m) (simp_all add: bind_err_def)

lemma dedup_keys: "map key (dedup ch key rs) = remdups (map key rs)"
proof -
  have "key (filter (\<lambda>r. key r = k) rs ! (ch (filter (\<lambda>r. key r = k) rs)
          mod length (filter (\<lambda>r. key r = k) rs))) = k"
    if "k \<in> set (map key rs)" for k
  proof -
    let ?g = "filter (\<lambda>r. key r = k) rs"
    from that have "?g \<noteq> []" by (auto simp: filter_empty_conv)
    then have "ch ?g mod length ?g < length ?g" by simp
    then have "?g ! (ch ?g mod length ?g) \<in> set ?g" by (rule nth_mem)
    then show ?thesis by simp
  qed
  then show ?thesis
    unfolding dedup_def Let_def map_map o_def by (intro map_idI) simp
qed

lemma dropDuplicates_keys:
  assumes "dropDuplicates eng name df = Inr t"
  shows "\<exists>i. resolve (columns df) name = Inr i \<and> columns t = columns df
           \<and> key_values t name = Some (remdups (map (\<lambda>r. cell r i) (rows df)))"
proof -
  from assms obtain i where i: "resolve (columns df) name = Inr i"
    and t: "t = df\<lparr>rows := dedup (keep eng) (\<lambda>r. cell r i) (rows df)\<rparr>"
    by (auto simp: dropDuplicates_def bind_err_Inr)
  have "key_values t name = Some (remdups (map (\<lambda>r. cell r i) (rows df)))"
    by (simp add: key_values_def t i dedup_keys)
  with i t show ?thesis by simp
qed

lemma dropDuplicates_distinct:
  assumes "dropDuplicates eng name df = Inr t"
  shows "\<exists>ks. key_values t name = Some ks \<and> distinct ks"
  using dropDuplicates_keys [OF assms] by auto

text \<open>
  C2. Each keyed output table has at most one row per key value: \<open>songs\<close> per
  \<open>song_id\<close>, \<open>artists\<close> per \<open>artist_id\<close>, \<open>users\<close> per \<open>userId\<close> and \<open>time\<close> per
  \<open>start_time\<close>. Whatever the input frame and whichever row the engine keeps of a group,
  the key column of a table that is produced has no repeated value.
\<close>

theorem keyed_tables_distinct:
  "(songs_table eng song_df = Inr songs
      \<longrightarrow> (\<exists>ks. key_values songs ''song_id'' = Some ks \<and> distinct ks))
   \<and> (artists_table eng song_df = Inr artists
      \<longrightarrow> (\<exists>ks. key_values artists ''artist_id'' = Some ks \<and> distinct ks))
   \<and> (users_table eng df = Inr users
      \<longrightarrow> (\<exists>ks. key_values users ''userId'' = Some ks \<and> distinct ks))
   \<and> (time_table eng df2 = Inr time_tbl
      \<longrightarrow> (\<exists>ks. key_values time_tbl ''start_time'' = Some ks \<and> distinct ks))"
  by (auto simp: songs_table_def artists_table_def users_table_def time_table_def bind_err_Inr
      dest: dropDuplicates_distinct)

theorem keyed_tables_distinct_witness:
  "(\<exists>t. songs_table utc_engine sample_song_df = Inr t
        \<and> (\<exists>ks. key_values t ''song_id'' = Some ks \<and> distinct ks))
   \<and> (\<exists>t. artists_table utc_engine sample_song_df = Inr t
        \<and> (\<exists>ks. key_values t ''artist_id'' = Some ks \<and> distinct ks))
   \<and> (\<exists>t. bind_err (next_song_events sample_log_df) (users_table utc_engine) = Inr t
        \<and> (\<exists>ks. key_values t ''userId'' = Some ks \<and> distinct ks))
   \<and> (\<exists>t. bind_err (next_song_events sample_log_df)
              (\<lambda>df. bind_err (with_timestamps utc_engine df) (time_table utc_engine)) = Inr t
        \<and> (\<exists>ks. key_values t ''start_time'' = Some ks \<and> distinct ks))"
proof -
  have 1: "\<not> isl (songs_table utc_engine sample_song_df)" by code_simp
  have 2: "\<not> isl (artists_table utc_engine sample_song_df)" by code_simp
  have 3: "\<not> isl (bind_err (next_song_events sample_log_df) (users_table utc_engine))"
    by code_simp
  have 4: "\<not> isl (bind_err (next_song_events sample_log_df)
              (\<lambda>df. bind_err (with_timestamps utc_engine df) (time_table utc_engine)))"
    by code_simp
  from 1 obtain t1 where t1: "songs_table utc_engine sample_song_df = Inr t1"
    by (cases "songs_table utc_engine sample_song_df") auto
  from 2 obtain t2 where t2: "artists_table utc_engine sample_song_df = Inr t2"
    by (cases "artists_table utc_engine sample_song_df") auto
  from 3 obtain t3 where t3: "bind_err (next_song_events sample_log_df) (users_table utc_engine) = Inr t3"
    by (cases "bind_err (next_song_events sample_log_df) (users_table utc_engine)") auto
  then obtain df where u: "users_table utc_engine df = Inr t3" by (auto simp: bind_err_Inr)
  from 4 obtain t4 where t4: "bind_err (next_song_events sample_log_df)
      (\<lambda>df. bind_err (with_timestamps utc_engine df) (time_table utc_engine)) = Inr t4"
    by (cases "bind_err (next_song_events sample_log_df)
      (\<lambda>df. bind_err (with_timestamps utc_engine df) (time_table utc_engine))") auto
  then obtain df2 where tt: "time_table utc_engine df2 = Inr t4" by (auto simp: bind_err_Inr)
  from keyed_tables_distinct [of utc_engine sample_song_df t1 t2 df t3 df2 t4] t1 t2 u tt t3 t4
  show ?thesis by simp
qed

section \<open>The two scenarios of the specification\<close>

text \<open>
  C1. On the song record and the event of the end-to-end scenario the join keeps one
  pair of rows, but the selection that follows asks for a column \<open>ssessionId\<close>, which
  neither frame has (the event's field is \<open>sessionId\<close>): the analysis fails and no
  \<open>songplays\<close> row is produced, whatever the engine.
\<close>

theorem scenario_songplays_fails:
  "bind_err (next_song_events scenario_log_df) (\<lambda>df.
     bind_err (with_timestamps eng df) (\<lambda>df2.
       bind_err (join df2 scenario_song_df) (\<lambda>joined. Inr (length (rows joined))))) = Inr 1
   \<and> bind_err (next_song_events scenario_log_df) (\<lambda>df.
     bind_err (with_timestamps eng df) (\<lambda>df2. songplays_table eng df2 scenario_song_df))
     = Inl (AnalysisException ''cannot resolve ssessionId'')"
  by code_simp

text \<open>
  C4. Two songs of one title by different artists and one event playing that title: the
  join yields two rows, and the same selection fails on the column \<open>ssessionId\<close>, so
  that no \<open>songplays\<close> row is produced.
\<close>

theorem fanout_songplays_fails:
  "bind_err (next_song_events fanout_log_df) (\<lambda>df.
     bind_err (with_timestamps eng df) (\<lambda>df2.
       bind_err (join df2 fanout_song_df) (\<lambda>joined. Inr (length (rows joined))))) = Inr 2
   \<and> bind_err (next_song_events fanout_log_df) (\<lambda>df.
     bind_err (with_timestamps eng df) (\<lambda>df2. songplays_table eng df2 fanout_song_df))
     = Inl (AnalysisException ''cannot resolve ssessionId'')"
  by code_simp

section \<open>Credentials\<close>

lemma lower_key_names:
  "lower ''AWS_ACCESS_KEY_ID'' = ''aws_access_key_id''"
  "lower ''AWS_SECRET_ACCESS_KEY'' = ''aws_secret_access_key''"
  by code_simp+

text \<open>
  C9. The configuration is read first, once, before either pipeline runs. When the file
  (or its section \<open>KEYS\<close>, or one of the two options in it) is missing, the program ends
  with a \<open>KeyError\<close> that nothing catches and the store is untouched; otherwise both
  values are in the environment, and the pipelines run from there.
\<close>

theorem config_first:
  "((files ''dl.cfg'' = None
      \<or> (\<exists>c. files ''dl.cfg'' = Some c
            \<and> (c ''KEYS'' = None
               \<or> (\<exists>m. c ''KEYS'' = Some m
                     \<and> (m ''aws_access_key_id'' = None \<or> m ''aws_secret_access_key'' = None)))))
     \<longrightarrow> (\<exists>k. snd (etl eng files (env, st)) = Some (KeyError k))
        \<and> snd (fst (etl eng files (env, st))) = st)
   \<and> (files ''dl.cfg'' = Some c \<and> c ''KEYS'' = Some m
       \<and> m ''aws_access_key_id'' = Some a \<and> m ''aws_secret_access_key'' = Some b
     \<longrightarrow> etl eng files (env, st)
         = ((env(''AWS_ACCESS_KEY_ID'' \<mapsto> a, ''AWS_SECRET_ACCESS_KEY'' \<mapsto> b), fst (main eng st)),
            snd (main eng st)))"
  by (auto simp: etl_def load_config_def config_read_def config_get_def lower_key_names Let_def
      split: option.splits sum.splits prod.splits)

theorem config_first_witness:
  "(\<exists>k. snd (etl utc_engine Map.empty (Map.empty, sample_store)) = Some (KeyError k))
   \<and> snd (fst (etl utc_engine Map.empty (Map.empty, sample_store))) = sample_store
   \<and> fst (fst (etl utc_engine sample_files (Map.empty, sample_store))) ''AWS_ACCESS_KEY_ID''
       = Some ''AKIAEXAMPLE''
   \<and> fst (fst (etl utc_engine sample_files (Map.empty, sample_store))) ''AWS_SECRET_ACCESS_KEY''
       = Some ''abc/123+xyz''
   \<and> snd (fst (etl utc_engine sample_files (Map.empty, sample_store)))
       = fst (main utc_engine sample_store)"
proof -
  have "sample_files ''dl.cfg'' = Some [''KEYS'' \<mapsto> [''aws_access_key_id'' \<mapsto> ''AKIAEXAMPLE'',
                                       ''aws_secret_access_key'' \<mapsto> ''abc/123+xyz'']]"
    by (simp add: sample_files_def)
  with config_first [where files = Map.empty and eng = utc_engine and env = Map.empty
      and st = sample_store]
    config_first [where files = sample_files and eng = utc_engine and env = Map.empty
      and st = sample_store
      and c = "[''KEYS'' \<mapsto> [''aws_access_key_id'' \<mapsto> ''AKIAEXAMPLE'',
                            ''aws_secret_access_key'' \<mapsto> ''abc/123+xyz'']]"
      and m = "[''aws_access_key_id'' \<mapsto> ''AKIAEXAMPLE'',
               ''aws_secret_access_key'' \<mapsto> ''abc/123+xyz'']"
      and a = "''AKIAEXAMPLE''" and b = "''abc/123+xyz''"]
  show ?thesis by simp
qed

section \<open>Runs that differ only in what they do not read\<close>

lemma same_effect_refl: "same_effect s s' s s'"
  by (simp add: same_effect_def)


lemma same_effect_at: "same_effect s s' a a' \<Longrightarrow> s q = s' q \<Longrightarrow> a q = a' q"
  unfolding same_effect_def by metis

lemma spark_read_json_cong: "a q = a' q \<Longrightarrow> spark_read_json a q = spark_read_json a' q"
  by (simp add: spark_read_json_def)

lemma write_parquet_effect:
  assumes "same_effect s s' a a'"
  shows "snd (write_parquet pc p df a) = snd (write_parquet pc p df a')"
    and "same_effect s s' (fst (write_parquet pc p df a)) (fst (write_parquet pc p df a'))"
  using assms
  by (auto simp: write_parquet_def same_effect_def split: sum.splits list.splits)

lemma write_parquet_effect':
  assumes "same_effect s s' a a'"
    and "write_parquet pc p df a = (b, r)" and "write_parquet pc p df a' = (b', r')"
  shows "r = r' \<and> same_effect s s' b b'"
  using write_parquet_effect [OF assms(1), of pc p df] assms(2,3) by simp


lemma process_log_data_effect:
  assumes first: "bind_err (spark_read_json s (input_data @ ''log_data/*/*/*.json'')) next_song_events
      = bind_err (spark_read_json s' (input_data @ ''log_data/*/*/*.json'')) next_song_events"
    and song: "s (input_data @ ''song_data/A/A/*/*.json'') = s' (input_data @ ''song_data/A/A/*/*.json'')"
  shows "snd (process_log_data eng input_data output_data s)
           = snd (process_log_data eng input_data output_data s')
         \<and> same_effect s s' (fst (process_log_data eng input_data output_data s))
              (fst (process_log_data eng input_data output_data s'))"
proof -
  let ?lp = "input_data @ ''log_data/*/*/*.json''"
  let ?sp = "input_data @ ''song_data/A/A/*/*.json''"
  show ?thesis
  proof (cases "bind_err (spark_read_json s' ?lp) next_song_events")
    case (Inl e)
    with first show ?thesis by (simp add: process_log_data_def same_effect_refl)
  next
    case df: (Inr df)
    note df' = first [unfolded df]
    show ?thesis
    proof (cases "users_table eng df")
      case (Inl e)
      with df df' show ?thesis by (simp add: process_log_data_def same_effect_refl)
    next
      case users: (Inr users)
      obtain a r where w: "write_parquet [] (path_join output_data ''users.parquet'') users s = (a, r)"
        by force
      obtain a' r' where w': "write_parquet [] (path_join output_data ''users.parquet'') users s' = (a', r')"
        by force
      from write_parquet_effect' [OF same_effect_refl w w']
      have r: "r' = r" and e1: "same_effect s s' a a'" by simp_all
      show ?thesis
      proof (cases r)
        case (Some e)
        with df df' users w w' r e1 show ?thesis by (simp add: process_log_data_def)
      next
        case r_ok: None
        show ?thesis
        proof (cases "bind_err (with_timestamps eng df)
                (\<lambda>df2. bind_err (time_table eng df2) (\<lambda>t. Inr (df2, t)))")
          case (Inl e)
          with df df' users w w' r e1 r_ok show ?thesis by (simp add: process_log_data_def)
        next
          case (Inr pr)
          obtain df2 time_tbl where pr: "pr = (df2, time_tbl)" by (cases pr)
          note tt = Inr [unfolded pr]
          obtain b q where v: "write_parquet [''year'', ''month'']
              (path_join output_data ''time.parquet'') time_tbl a = (b, q)" by force
          obtain b' q' where v': "write_parquet [''year'', ''month'']
              (path_join output_data ''time.parquet'') time_tbl a' = (b', q')" by force
          from write_parquet_effect' [OF e1 v v']
          have q: "q' = q" and e2: "same_effect s s' b b'" by simp_all
          show ?thesis
          proof (cases q)
            case (Some e)
            with df df' users w w' r r_ok tt v v' q e2 show ?thesis
              by (simp add: process_log_data_def)
          next
            case q_ok: None
            have rd: "spark_read_json b ?sp = spark_read_json b' ?sp"
              using same_effect_at [OF e2 song] by (rule spark_read_json_cong)
            show ?thesis
            proof (cases "bind_err (spark_read_json b' ?sp) (songplays_table eng df2)")
              case (Inl e)
              with df df' users w w' r r_ok tt v v' q q_ok e2 rd show ?thesis
                by (simp add: process_log_data_def)
            next
              case (Inr songplays)
              with df df' users w w' r r_ok tt v v' q q_ok rd write_parquet_effect [OF e2]
              show ?thesis by (simp add: process_log_data_def)
            qed
          qed
        qed
      qed
    qed
  qed
qed



section \<open>Pages that are not plays\<close>

lemma song_path_neq_log_path:
  "input_data @ ''song_data/A/A/*/*.json'' \<noteq> input_data @ ''log_data/*/*/*.json''"
  by simp

text \<open>
  C3. An event row whose page is not \<open>NextSong\<close> has no part in any output of the event
  pipeline: with the row in the log or without it, \<open>process_log_data\<close> ends the same way
  and leaves the same at every path but the log itself, so the same \<open>users\<close>, \<open>time\<close>
  and \<open>songplays\<close> tables. The filter comes first, and nothing after it reads the log.
\<close>

theorem other_pages_ignored:
  assumes "resolve (columns df) ''page'' = Inr i" and "cell r i \<noteq> StrV ''NextSong''"
  shows "snd (process_log_data eng input_data output_data
                (st(input_data @ ''log_data/*/*/*.json''
                      \<mapsto> \<lparr>partition_by = ps, frame = df\<lparr>rows := xs @ r # ys\<rparr>\<rparr>)))
         = snd (process_log_data eng input_data output_data
                (st(input_data @ ''log_data/*/*/*.json''
                      \<mapsto> \<lparr>partition_by = ps, frame = df\<lparr>rows := xs @ ys\<rparr>\<rparr>)))
       \<and> (\<forall>p. p \<noteq> input_data @ ''log_data/*/*/*.json'' \<longrightarrow>
            fst (process_log_data eng input_data output_data
                  (st(input_data @ ''log_data/*/*/*.json''
                        \<mapsto> \<lparr>partition_by = ps, frame = df\<lparr>rows := xs @ r # ys\<rparr>\<rparr>))) p
            = fst (process_log_data eng input_data output_data
                  (st(input_data @ ''log_data/*/*/*.json''
                        \<mapsto> \<lparr>partition_by = ps, frame = df\<lparr>rows := xs @ ys\<rparr>\<rparr>))) p)"
proof -
  let ?lp = "input_data @ ''log_data/*/*/*.json''"
  let ?s1 = "st(?lp \<mapsto> \<lparr>partition_by = ps, frame = df\<lparr>rows := xs @ r # ys\<rparr>\<rparr>)"
  let ?s2 = "st(?lp \<mapsto> \<lparr>partition_by = ps, frame = df\<lparr>rows := xs @ ys\<rparr>\<rparr>)"
  have ev: "next_song_events (df\<lparr>rows := xs @ r # ys\<rparr>) = next_song_events (df\<lparr>rows := xs @ ys\<rparr>)"
    using assms by (simp add: next_song_events_def attr_def filter_eq_def bind_err_def)
  have first: "bind_err (spark_read_json ?s1 ?lp) next_song_events
                 = bind_err (spark_read_json ?s2 ?lp) next_song_events"
    using ev by (simp add: spark_read_json_def bind_err_def)
  have song: "?s1 (input_data @ ''song_data/A/A/*/*.json'') = ?s2 (input_data @ ''song_data/A/A/*/*.json'')"
    by simp
  from process_log_data_effect [OF first song, of eng output_data]
  have res: "snd (process_log_data eng input_data output_data ?s1)
               = snd (process_log_data eng input_data output_data ?s2)"
    and eff: "same_effect ?s1 ?s2 (fst (process_log_data eng input_data output_data ?s1))
                (fst (process_log_data eng input_data output_data ?s2))"
    by blast+
  have "fst (process_log_data eng input_data output_data ?s1) p
          = fst (process_log_data eng input_data output_data ?s2) p" if "p \<noteq> ?lp" for p
  proof -
    from that have "?s1 p = ?s2 p" by simp
    with eff show ?thesis by (rule same_effect_at)
  qed
  with res show ?thesis by blast
qed

theorem other_pages_ignored_witness:
  "resolve (columns sample_log_df) ''page'' = Inr 5
   \<and> cell sample_home_row 5 \<noteq> StrV ''NextSong''
   \<and> snd (process_log_data utc_engine ''s3a://udacity-dend/'' ''s3a://gharibudacity/''
            (sample_store(''s3a://udacity-dend/log_data/*/*/*.json''
               \<mapsto> \<lparr>partition_by = [], frame = sample_log_df
                    \<lparr>rows := [sample_play_row] @ sample_home_row # [sample_paid_row]\<rparr>\<rparr>)))
     = snd (process_log_data utc_engine ''s3a://udacity-dend/'' ''s3a://gharibudacity/''
            (sample_store(''s3a://udacity-dend/log_data/*/*/*.json''
               \<mapsto> \<lparr>partition_by = [], frame = sample_log_df
                    \<lparr>rows := [sample_play_row] @ [sample_paid_row]\<rparr>\<rparr>)))
   \<and> fst (process_log_data utc_engine ''s3a://udacity-dend/'' ''s3a://gharibudacity/''
            (sample_store(''s3a://udacity-dend/log_data/*/*/*.json''
               \<mapsto> \<lparr>partition_by = [], frame = sample_log_df
                    \<lparr>rows := [sample_play_row] @ sample_home_row # [sample_paid_row]\<rparr>\<rparr>)))
         ''s3a://gharibudacity/users.parquet''
     = fst (process_log_data utc_engine ''s3a://udacity-dend/'' ''s3a://gharibudacity/''
            (sample_store(''s3a://udacity-dend/log_data/*/*/*.json''
               \<mapsto> \<lparr>partition_by = [], frame = sample_log_df
                    \<lparr>rows := [sample_play_row] @ [sample_paid_row]\<rparr>\<rparr>)))
         ''s3a://gharibudacity/users.parquet''"
proof -
  have 1: "resolve (columns sample_log_df) ''page'' = Inr 5" by code_simp
  have 2: "cell sample_home_row 5 \<noteq> StrV ''NextSong''" by code_simp
  have 3: "''s3a://gharibudacity/users.parquet'' \<noteq> ''s3a://udacity-dend/'' @ ''log_data/*/*/*.json''"
    by simp
  from other_pages_ignored [OF 1 2, of utc_engine "''s3a://udacity-dend/''" "''s3a://gharibudacity/''"
      sample_store "[]" "[sample_play_row]" "[sample_paid_row]"] 1 2 3
  show ?thesis by simp
qed

section \<open>Running twice\<close>










section \<open>Resolving names\<close>









section \<open>Cells\<close>






section \<open>The datetime column\<close>












section \<open>Start times\<close>



section \<open>The songplays table\<close>






section \<open>Identifiers of songplays\<close>








section \<open>Year and month of a songplay\<close>






end
